theory Spec2Isabelle
  imports Main
begin

section \<open>Python values\<close>

text \<open>
  The client of \<^verbatim>\<open>foreman.py\<close> handles the values that \<^verbatim>\<open>json.loads\<close> produces and
  that its callers pass in: \<^verbatim>\<open>None\<close>, booleans, integers, strings, lists and dictionaries
  with string keys. A dictionary is an association list in insertion order (the order in
  which Python 3 iterates it); its keys are distinct (\<open>wf_dict\<close>). Floating point
  numbers are left out.
\<close>

datatype pyval =
    PNone
  | PBool bool
  | PInt int
  | PStr string
  | PList "pyval list"
  | PDict "(string \<times> pyval) list"

type_synonym pydict = "(string \<times> pyval) list"

definition wf_dict :: "pydict \<Rightarrow> bool" where
  "wf_dict d = distinct (map fst d)"

text \<open>The exceptions the code can raise. \<open>ForemanError\<close> keeps the four attributes
  that its \<^verbatim>\<open>__init__\<close> stores.\<close>

datatype py_exn =
    ForemanError (fe_url: string) (fe_request: pyval) (fe_status_code: int) (fe_message: pyval)
  | AttributeError
  | TypeError
  | KeyError
  | IndexError
  | JSONDecodeError
  | RequestException

definition exn_bind :: "py_exn + 'a \<Rightarrow> ('a \<Rightarrow> py_exn + 'b) \<Rightarrow> py_exn + 'b" where
  "exn_bind m f = (case m of Inl e \<Rightarrow> Inl e | Inr v \<Rightarrow> f v)"

subsection \<open>Truth value, \<^verbatim>\<open>str\<close> and \<^verbatim>\<open>repr\<close>\<close>

text \<open>\<^verbatim>\<open>if x:\<close> tests the truth value of \<open>x\<close>: \<^verbatim>\<open>None\<close>, \<^verbatim>\<open>False\<close>, \<^verbatim>\<open>0\<close> and the
  empty string, list and dictionary are false.\<close>

fun py_bool :: "pyval \<Rightarrow> bool" where
  "py_bool PNone = False"
| "py_bool (PBool b) = b"
| "py_bool (PInt i) = (i \<noteq> 0)"
| "py_bool (PStr s) = (s \<noteq> [])"
| "py_bool (PList xs) = (xs \<noteq> [])"
| "py_bool (PDict d) = (d \<noteq> [])"

definition digit_char :: "nat \<Rightarrow> char" where
  "digit_char n = ''0123456789abcdef'' ! n"

function str_nat :: "nat \<Rightarrow> string" where
  "str_nat n = (if n < 10 then [digit_char n] else str_nat (n div 10) @ [digit_char (n mod 10)])"
  by pat_completeness auto
termination
  by (relation "measure id") auto

declare str_nat.simps [simp del]

definition str_int :: "int \<Rightarrow> string" where
  "str_int i = (if i < 0 then ''-'' @ str_nat (nat (- i)) else str_nat (nat i))"

text \<open>\<^verbatim>\<open>', '.join(xs)\<close> and its relatives.\<close>

fun py_join :: "string \<Rightarrow> string list \<Rightarrow> string" where
  "py_join sep [] = []"
| "py_join sep [x] = x"
| "py_join sep (x # y # ys) = x @ sep @ py_join sep (y # ys)"

text \<open>\<^verbatim>\<open>repr\<close> of a string: single quotes, unless the string has a single quote and no
  double quote; the quote, the backslash and the control characters are escaped. Bytes
  from \<open>0x80\<close> on stand for printable text and are kept.\<close>

definition repr_char :: "char \<Rightarrow> char \<Rightarrow> string" where
  "repr_char q c =
     (if c = q \<or> c = CHR 0x5C then [CHR 0x5C, c]
      else if c = CHR 0x09 then [CHR 0x5C, CHR ''t'']
      else if c = CHR 0x0A then [CHR 0x5C, CHR ''n'']
      else if c = CHR 0x0D then [CHR 0x5C, CHR ''r'']
      else if (of_char c :: nat) < 32 \<or> (of_char c :: nat) = 127
        then [CHR 0x5C, CHR ''x'', digit_char (of_char c div 16), digit_char (of_char c mod 16)]
      else [c])"

definition repr_str :: "string \<Rightarrow> string" where
  "repr_str s =
     (let q = (if CHR 0x27 \<in> set s \<and> CHR 0x22 \<notin> set s then CHR 0x22 else CHR 0x27)
      in [q] @ concat (map (repr_char q) s) @ [q])"

primrec py_repr :: "pyval \<Rightarrow> string" where
  "py_repr PNone = ''None''"
| "py_repr (PBool b) = (if b then ''True'' else ''False'')"
| "py_repr (PInt i) = str_int i"
| "py_repr (PStr s) = repr_str s"
| "py_repr (PList xs) = ''['' @ py_join '', '' (map py_repr xs) @ '']''"
| "py_repr (PDict d) =
     ''{'' @ py_join '', '' (map (\<lambda>(k, r). repr_str k @ '': '' @ r) (map (map_prod id py_repr) d)) @ ''}''"

text \<open>\<^verbatim>\<open>str(x)\<close>: a string is itself, everything else prints as its \<^verbatim>\<open>repr\<close>.\<close>

definition py_str :: "pyval \<Rightarrow> string" where
  "py_str v = (case v of PStr s \<Rightarrow> s | _ \<Rightarrow> py_repr v)"

section \<open>The client object\<close>

definition FOREMAN_REQUEST_HEADERS :: "(string \<times> string) list" where
  "FOREMAN_REQUEST_HEADERS =
     [(''content-type'', ''application/json''), (''accept'', ''application/json'')]"

definition FOREMAN_API_VERSION :: string where
  "FOREMAN_API_VERSION = ''v2''"

record foreman =
  auth :: "string \<times> string"
  hostname :: string
  port :: pyval
  url :: string

text \<open>\<^verbatim>\<open>Foreman.__init__\<close>: the base URL is
  \<^verbatim>\<open>"https://{0}:{1}/api/{2}".format(hostname, port, FOREMAN_API_VERSION)\<close>.\<close>

definition Foreman_init :: "string \<Rightarrow> pyval \<Rightarrow> string \<Rightarrow> string \<Rightarrow> foreman" where
  "Foreman_init hostname' port' username password =
     \<lparr> auth = (username, password),
       hostname = hostname',
       port = port',
       url = ''https://'' @ hostname' @ '':'' @ py_str port' @ ''/api/'' @ FOREMAN_API_VERSION \<rparr>"

subsection \<open>\<^verbatim>\<open>_get_resource_url\<close>\<close>

text \<open>\<open>resource_type\<close> and \<open>component\<close> are strings (\<open>component\<close> defaults to
  \<^verbatim>\<open>None\<close>); \<open>resource_id\<close> and \<open>component_id\<close> go through \<^verbatim>\<open>str\<close> and may be any
  value. Each \<^verbatim>\<open>if\<close> tests the truth value of its argument.\<close>

definition get_resource_url ::
  "foreman \<Rightarrow> string \<Rightarrow> pyval \<Rightarrow> string option \<Rightarrow> pyval \<Rightarrow> string" where
  "get_resource_url self resource_type resource_id component component_id =
     (let url0 = url self @ ''/'' @ resource_type in
      if py_bool resource_id then
        (let url1 = url0 @ ''/'' @ py_str resource_id in
         case component of
           None \<Rightarrow> url1
         | Some c \<Rightarrow>
             if c \<noteq> [] then
               (let url2 = url1 @ ''/'' @ c in
                if py_bool component_id then url2 @ ''/'' @ py_str component_id
                else url2)
             else url1)
      else url0)"

section \<open>Requests and responses\<close>

text \<open>
  What \<^verbatim>\<open>requests.get/post/put/delete\<close> are called with, and what they give back. A
  response carries its URL, its status code and its text; \<open>json\<close> is the text decoded by
  \<^verbatim>\<open>json.loads\<close> (\<open>None\<close> when the text is not JSON, where \<^verbatim>\<open>json.loads\<close> and
  \<^verbatim>\<open>req.json()\<close> raise). The remote side is a function from the requests sent so far
  and the current request to a reply; every operation threads the list of requests sent.
\<close>

datatype verb = GET | POST | PUT | DELETE

datatype payload = NoData | Data pyval | JsonDumps pyval

record http_request =
  req_verb :: verb
  req_url :: string
  req_data :: payload
  req_headers :: "(string \<times> string) list"
  req_auth :: "string \<times> string"
  req_verify :: bool

record http_response =
  resp_url :: string
  status_code :: int
  json :: "pyval option"

datatype reply = Response http_response | ConnectionFailed

type_synonym server = "http_request list \<Rightarrow> http_request \<Rightarrow> reply"

type_synonym 'a io = "http_request list \<Rightarrow> (py_exn + 'a) \<times> http_request list"

definition json_loads :: "http_response \<Rightarrow> py_exn + pyval" where
  "json_loads req = (case json req of None \<Rightarrow> Inl JSONDecodeError | Some v \<Rightarrow> Inr v)"

subsection \<open>Operations on values\<close>

text \<open>\<^verbatim>\<open>x.get(k)\<close>: only a dictionary has the method.\<close>

definition py_get :: "pyval \<Rightarrow> string \<Rightarrow> py_exn + pyval" where
  "py_get x k =
     (case x of
        PDict d \<Rightarrow> Inr (case map_of d k of None \<Rightarrow> PNone | Some v \<Rightarrow> v)
      | _ \<Rightarrow> Inl AttributeError)"

fun starts_with :: "string \<Rightarrow> string \<Rightarrow> bool" where
  "starts_with s [] = True"
| "starts_with [] (c # p) = False"
| "starts_with (x # s) (c # p) = (x = c \<and> starts_with s p)"

fun contains_str :: "string \<Rightarrow> string \<Rightarrow> bool" where
  "contains_str [] p = (p = [])"
| "contains_str (x # s) p = (starts_with (x # s) p \<or> contains_str s p)"

text \<open>\<^verbatim>\<open>k in x\<close> for a string \<open>k\<close>: a key of a dictionary, an element of a list, a
  substring of a string; the other values are not containers.\<close>

definition py_in :: "string \<Rightarrow> pyval \<Rightarrow> py_exn + bool" where
  "py_in k x =
     (case x of
        PDict d \<Rightarrow> Inr (k \<in> set (map fst d))
      | PList xs \<Rightarrow> Inr (PStr k \<in> set xs)
      | PStr s \<Rightarrow> Inr (contains_str s k)
      | _ \<Rightarrow> Inl TypeError)"

text \<open>\<^verbatim>\<open>x.has_key\<close>: no value has this attribute in Python 3 (in Python 2 a dictionary
  has it, as a method, and \<^verbatim>\<open>k in x.has_key\<close> raises \<^verbatim>\<open>TypeError\<close> instead: an
  exception in both).\<close>

definition py_has_key :: "pyval \<Rightarrow> py_exn + pyval" where
  "py_has_key x = Inl AttributeError"

definition is_PStr :: "pyval \<Rightarrow> bool" where
  "is_PStr v = (case v of PStr s \<Rightarrow> True | _ \<Rightarrow> False)"

text \<open>\<^verbatim>\<open>sep.join(x)\<close>: the elements of \<open>x\<close> (the keys, for a dictionary; the characters,
  for a string) must be strings.\<close>

definition py_str_join :: "string \<Rightarrow> pyval \<Rightarrow> py_exn + pyval" where
  "py_str_join sep x =
     (case x of
        PList xs \<Rightarrow>
          if list_all is_PStr xs then Inr (PStr (py_join sep (map py_str xs))) else Inl TypeError
      | PStr s \<Rightarrow> Inr (PStr (py_join sep (map (\<lambda>c. [c]) s)))
      | PDict d \<Rightarrow> Inr (PStr (py_join sep (map fst d)))
      | _ \<Rightarrow> Inl TypeError)"

definition py_len :: "pyval \<Rightarrow> py_exn + nat" where
  "py_len x =
     (case x of
        PStr s \<Rightarrow> Inr (length s)
      | PList xs \<Rightarrow> Inr (length xs)
      | PDict d \<Rightarrow> Inr (length d)
      | _ \<Rightarrow> Inl TypeError)"

text \<open>\<^verbatim>\<open>x[0]\<close>. The keys of a dictionary are strings, so \<open>0\<close> is never one.\<close>

definition py_item0 :: "pyval \<Rightarrow> py_exn + pyval" where
  "py_item0 x =
     (case x of
        PList xs \<Rightarrow> (case xs of [] \<Rightarrow> Inl IndexError | y # ys \<Rightarrow> Inr y)
      | PStr s \<Rightarrow> (case s of [] \<Rightarrow> Inl IndexError | c # cs \<Rightarrow> Inr (PStr [c]))
      | PDict d \<Rightarrow> Inl KeyError
      | _ \<Rightarrow> Inl TypeError)"

subsection \<open>The four verb wrappers\<close>

definition get_request :: "server \<Rightarrow> foreman \<Rightarrow> string \<Rightarrow> pyval \<Rightarrow> pyval io" where
  "get_request srv self u d log =
     (let rq = \<lparr> req_verb = GET, req_url = u, req_data = Data d, req_headers = [],
                 req_auth = auth self, req_verify = False \<rparr>;
          log' = log @ [rq]
      in case srv log rq of
           ConnectionFailed \<Rightarrow> (Inl RequestException, log')
         | Response req \<Rightarrow>
             if status_code req = 200 then (json_loads req, log')
             else
               (exn_bind (json_loads req) (\<lambda>j.
                exn_bind (py_get j ''error'') (\<lambda>e.
                exn_bind (py_get e ''message'') (\<lambda>m.
                exn_bind (json_loads req) (\<lambda>j'.
                  Inl (ForemanError (resp_url req) j' (status_code req) m))))), log'))"

definition post_request :: "server \<Rightarrow> foreman \<Rightarrow> string \<Rightarrow> pyval \<Rightarrow> pyval io" where
  "post_request srv self u d log =
     (let rq = \<lparr> req_verb = POST, req_url = u, req_data = JsonDumps d,
                 req_headers = FOREMAN_REQUEST_HEADERS,
                 req_auth = auth self, req_verify = False \<rparr>;
          log' = log @ [rq]
      in case srv log rq of
           ConnectionFailed \<Rightarrow> (Inl RequestException, log')
         | Response req \<Rightarrow>
             if status_code req \<in> {200, 201} then (json_loads req, log')
             else
               (exn_bind (json_loads req) (\<lambda>j.
                exn_bind (py_get j ''error'') (\<lambda>request_error.
                exn_bind
                  (exn_bind (py_in ''message'' request_error) (\<lambda>has_message.
                     if has_message then py_get request_error ''message''
                     else
                       exn_bind (py_has_key request_error) (\<lambda>hk.
                       exn_bind (py_in ''full_messages'' hk) (\<lambda>has_full.
                         if has_full then
                           exn_bind (py_get request_error ''full_messages'')
                             (py_str_join '', '')
                         else Inr request_error))))
                  (\<lambda>error_message.
                exn_bind (json_loads req) (\<lambda>j'.
                  Inl (ForemanError (resp_url req) j' (status_code req) error_message))))), log'))"

definition put_request :: "server \<Rightarrow> foreman \<Rightarrow> string \<Rightarrow> pyval \<Rightarrow> pyval io" where
  "put_request srv self u d log =
     (let rq = \<lparr> req_verb = PUT, req_url = u, req_data = JsonDumps d,
                 req_headers = FOREMAN_REQUEST_HEADERS,
                 req_auth = auth self, req_verify = False \<rparr>;
          log' = log @ [rq]
      in case srv log rq of
           ConnectionFailed \<Rightarrow> (Inl RequestException, log')
         | Response req \<Rightarrow>
             if status_code req = 200 then (json_loads req, log')
             else
               (exn_bind (json_loads req) (\<lambda>j.
                exn_bind (py_get j ''error'') (\<lambda>e.
                exn_bind (py_get e ''message'') (\<lambda>m.
                exn_bind (json_loads req) (\<lambda>j'.
                  Inl (ForemanError (resp_url req) j' (status_code req) m))))), log'))"

definition delete_request :: "server \<Rightarrow> foreman \<Rightarrow> string \<Rightarrow> pyval io" where
  "delete_request srv self u log =
     (let rq = \<lparr> req_verb = DELETE, req_url = u, req_data = NoData,
                 req_headers = FOREMAN_REQUEST_HEADERS,
                 req_auth = auth self, req_verify = False \<rparr>;
          log' = log @ [rq]
      in case srv log rq of
           ConnectionFailed \<Rightarrow> (Inl RequestException, log')
         | Response req \<Rightarrow>
             if status_code req = 200 then (json_loads req, log')
             else
               (exn_bind (json_loads req) (\<lambda>j.
                exn_bind (py_get j ''error'') (\<lambda>e.
                exn_bind (py_get e ''message'') (\<lambda>m.
                exn_bind (json_loads req) (\<lambda>j'.
                  Inl (ForemanError (resp_url req) j' (status_code req) m))))), log'))"

section \<open>Resource operations\<close>

subsection \<open>\<^verbatim>\<open>get_resources\<close>\<close>

definition get_resources :: "server \<Rightarrow> foreman \<Rightarrow> string \<Rightarrow> pyval io" where
  "get_resources srv self resource_type log =
     (case get_request srv self (get_resource_url self resource_type PNone None PNone) PNone log of
        (Inl e, log') \<Rightarrow> (Inl e, log')
      | (Inr request_result, log') \<Rightarrow> (py_get request_result ''results'', log'))"

subsection \<open>\<^verbatim>\<open>search_resource\<close>\<close>

text \<open>
  The \<^verbatim>\<open>for key in search_data\<close> loop, with \<open>search\<close> for \<^verbatim>\<open>data['search']\<close>.
  \<^verbatim>\<open>isinstance(v, int)\<close> holds of integers and of booleans, which print as \<^verbatim>\<open>str\<close>
  prints them; a value that is neither \<^verbatim>\<open>int\<close> nor \<^verbatim>\<open>str\<close> adds nothing after
  \<^verbatim>\<open>key == \<close>.
\<close>

fun search_loop :: "pydict \<Rightarrow> string list \<Rightarrow> string \<Rightarrow> py_exn + string" where
  "search_loop search_data [] search = Inr search"
| "search_loop search_data (key # keys) search =
     (let search1 = (if search \<noteq> [] then search @ '' AND '' else search);
          search2 = search1 @ (key @ '' == '')
      in case map_of search_data key of
           None \<Rightarrow> Inl KeyError
         | Some v \<Rightarrow>
             search_loop search_data keys
               (case v of
                  PInt i \<Rightarrow> search2 @ py_str v
                | PBool b \<Rightarrow> search2 @ py_str v
                | PStr s \<Rightarrow> search2 @ ([CHR 0x22] @ s @ [CHR 0x22])
                | _ \<Rightarrow> search2))"

text \<open>Iterating a dictionary gives its keys. An empty list or string gives no key at
  all; a non-empty one fails in the first round (at \<^verbatim>\<open>key + ' == '\<close> or at
  \<^verbatim>\<open>search_data[key]\<close>); the other values (the default \<^verbatim>\<open>None\<close> too) are not
  iterable.\<close>

definition search_query :: "pyval \<Rightarrow> py_exn + string" where
  "search_query search_data =
     (case search_data of
        PDict sd \<Rightarrow> search_loop sd (map fst sd) []
      | PList xs \<Rightarrow> if xs = [] then Inr [] else Inl TypeError
      | PStr s \<Rightarrow> if s = [] then Inr [] else Inl TypeError
      | _ \<Rightarrow> Inl TypeError)"

definition search_resource :: "server \<Rightarrow> foreman \<Rightarrow> string \<Rightarrow> pyval \<Rightarrow> pyval io" where
  "search_resource srv self resource_type search_data log =
     (case search_query search_data of
        Inl e \<Rightarrow> (Inl e, log)
      | Inr search \<Rightarrow>
          (case get_request srv self (get_resource_url self resource_type PNone None PNone)
                  (PDict [(''search'', PStr search)]) log of
             (Inl e, log') \<Rightarrow> (Inl e, log')
           | (Inr results, log') \<Rightarrow>
               (exn_bind (py_get results ''results'') (\<lambda>result.
                exn_bind (py_len result) (\<lambda>n.
                  if n = 1 then py_item0 result else Inr result)), log')))"

subsection \<open>\<^verbatim>\<open>get_resource\<close>\<close>

text \<open>The parameter \<open>resource_id\<close> of the source is overwritten with \<^verbatim>\<open>None\<close> in the
  first statement, so the model does not take it. The condition
  \<^verbatim>\<open>resource and 'id' and resource\<close> is the conjunction of three truth values, the
  middle one that of the non-empty string \<^verbatim>\<open>'id'\<close>.\<close>

definition get_resource :: "server \<Rightarrow> foreman \<Rightarrow> string \<Rightarrow> pyval \<Rightarrow> pyval io" where
  "get_resource srv self resource_type data log =
     (let (r, log1) =
        (case py_in ''id'' data of
           Inl e \<Rightarrow> (Inl e, log)
         | Inr True \<Rightarrow> (py_get data ''id'', log)
         | Inr False \<Rightarrow>
             (case py_in ''name'' data of
                Inl e \<Rightarrow> (Inl e, log)
              | Inr True \<Rightarrow>
                  (case search_resource srv self resource_type data log of
                     (Inl e, log') \<Rightarrow> (Inl e, log')
                   | (Inr resource, log') \<Rightarrow>
                       if py_bool resource \<and> py_bool (PStr ''id'') \<and> py_bool resource
                       then (py_get resource ''id'', log')
                       else (Inr PNone, log'))
              | Inr False \<Rightarrow> (Inr PNone, log)))
      in case r of
           Inl e \<Rightarrow> (Inl e, log1)
         | Inr resource_id \<Rightarrow>
             if py_bool resource_id then
               get_request srv self (get_resource_url self resource_type resource_id None PNone)
                 PNone log1
             else (Inr PNone, log1))"

subsection \<open>\<^verbatim>\<open>post_resource\<close>\<close>

text \<open>\<^verbatim>\<open>d[k] = v\<close>: an existing key keeps its place, a new key goes last.\<close>

fun dict_set :: "pydict \<Rightarrow> string \<Rightarrow> pyval \<Rightarrow> pydict" where
  "dict_set [] k v = [(k, v)]"
| "dict_set ((k', v') # d) k v =
     (if k' = k then (k', v) # d else (k', v') # dict_set d k v)"

text \<open>The loop \<^verbatim>\<open>for key in additional_data.keys(): resource_data[key] = additional_data[key]\<close>.\<close>

fun copy_loop :: "pydict \<Rightarrow> string list \<Rightarrow> pydict \<Rightarrow> py_exn + pydict" where
  "copy_loop additional_data [] resource_data = Inr resource_data"
| "copy_loop additional_data (key # keys) resource_data =
     (case map_of additional_data key of
        None \<Rightarrow> Inl KeyError
      | Some v \<Rightarrow> copy_loop additional_data keys (dict_set resource_data key v))"

text \<open>\<^verbatim>\<open>additional_data.keys()\<close> exists for a dictionary only.\<close>

definition post_resource ::
  "server \<Rightarrow> foreman \<Rightarrow> string \<Rightarrow> string \<Rightarrow> pyval \<Rightarrow> pyval \<Rightarrow> pyval io" where
  "post_resource srv self resource_type resource data additional_data log =
     (let u = get_resource_url self resource_type PNone None PNone;
          r = (if py_bool additional_data then
                 (case additional_data of
                    PDict ad \<Rightarrow> copy_loop ad (map fst ad) []
                  | _ \<Rightarrow> Inl AttributeError)
               else Inr [])
      in case r of
           Inl e \<Rightarrow> (Inl e, log)
         | Inr resource_data \<Rightarrow>
             post_request srv self u (PDict (dict_set resource_data resource data)) log)"

subsection \<open>\<^verbatim>\<open>put_resource\<close> and \<^verbatim>\<open>delete_resource\<close>\<close>

definition put_resource ::
  "server \<Rightarrow> foreman \<Rightarrow> string \<Rightarrow> pyval \<Rightarrow> pyval \<Rightarrow> string option \<Rightarrow> pyval io" where
  "put_resource srv self resource_type resource_id data component log =
     put_request srv self (get_resource_url self resource_type resource_id component PNone)
       data log"

definition delete_resource :: "server \<Rightarrow> foreman \<Rightarrow> string \<Rightarrow> pyval \<Rightarrow> pyval io" where
  "delete_resource srv self resource_type data log =
     (case py_get data ''id'' of
        Inl e \<Rightarrow> (Inl e, log)
      | Inr i \<Rightarrow>
          (let resource_id = PStr (py_str i)
           in delete_request srv self
                (get_resource_url self resource_type resource_id None PNone) log))"

section \<open>The specification's words\<close>

text \<open>
  The URL builder of the specification:
  \<^verbatim>\<open>base/resource_type[/resource_id[/component[/component_id]]]\<close>, over segments that are
  present (\<open>Some\<close>) or absent (\<open>None\<close>).
\<close>

definition spec_build ::
  "string \<Rightarrow> string \<Rightarrow> string option \<Rightarrow> string option \<Rightarrow> string option \<Rightarrow> string" where
  "spec_build base resource_type resource_id component component_id =
     base @ ''/'' @ resource_type @
     (case resource_id of
        None \<Rightarrow> []
      | Some r \<Rightarrow> ''/'' @ r @
          (case component of
             None \<Rightarrow> []
           | Some c \<Rightarrow> ''/'' @ c @
               (case component_id of None \<Rightarrow> [] | Some i \<Rightarrow> ''/'' @ i)))"

text \<open>The segment an argument stands for: the code takes an argument as present when its
  truth value is true.\<close>

definition segment :: "pyval \<Rightarrow> string option" where
  "segment v = (if py_bool v then Some (py_str v) else None)"

definition segment_str :: "string option \<Rightarrow> string option" where
  "segment_str c = (case c of None \<Rightarrow> None | Some s \<Rightarrow> if s \<noteq> [] then Some s else None)"

text \<open>
  The search filter of the specification: a field is compared with a string or with an
  integer. A clause is \<^verbatim>\<open>key == value\<close>, a string value in double quotes, an integer
  as it prints; the query is the clauses in the order of the mapping, joined by
  \<^verbatim>\<open>" AND "\<close>.
\<close>

datatype filter_value = FStr string | FInt int

fun filter_val :: "filter_value \<Rightarrow> pyval" where
  "filter_val (FStr s) = PStr s"
| "filter_val (FInt i) = PInt i"

definition filter_dict :: "(string \<times> filter_value) list \<Rightarrow> pydict" where
  "filter_dict fs = map (\<lambda>(k, v). (k, filter_val v)) fs"

fun spec_value :: "filter_value \<Rightarrow> string" where
  "spec_value (FStr s) = [CHR 0x22] @ s @ [CHR 0x22]"
| "spec_value (FInt i) = str_int i"

definition spec_clause :: "string \<times> filter_value \<Rightarrow> string" where
  "spec_clause kv = fst kv @ '' == '' @ spec_value (snd kv)"

definition spec_search_query :: "(string \<times> filter_value) list \<Rightarrow> string" where
  "spec_search_query fs = py_join '' AND '' (map spec_clause fs)"

text \<open>The requests that the four wrappers send, as their definitions build them.\<close>

definition get_rq :: "foreman \<Rightarrow> string \<Rightarrow> pyval \<Rightarrow> http_request" where
  "get_rq self u d =
     \<lparr> req_verb = GET, req_url = u, req_data = Data d, req_headers = [],
       req_auth = auth self, req_verify = False \<rparr>"

definition post_rq :: "foreman \<Rightarrow> string \<Rightarrow> pyval \<Rightarrow> http_request" where
  "post_rq self u d =
     \<lparr> req_verb = POST, req_url = u, req_data = JsonDumps d,
       req_headers = FOREMAN_REQUEST_HEADERS, req_auth = auth self, req_verify = False \<rparr>"

definition put_rq :: "foreman \<Rightarrow> string \<Rightarrow> pyval \<Rightarrow> http_request" where
  "put_rq self u d =
     \<lparr> req_verb = PUT, req_url = u, req_data = JsonDumps d,
       req_headers = FOREMAN_REQUEST_HEADERS, req_auth = auth self, req_verify = False \<rparr>"

definition delete_rq :: "foreman \<Rightarrow> string \<Rightarrow> http_request" where
  "delete_rq self u =
     \<lparr> req_verb = DELETE, req_url = u, req_data = NoData,
       req_headers = FOREMAN_REQUEST_HEADERS, req_auth = auth self, req_verify = False \<rparr>"

text \<open>A client and a remote side for the scenarios: the remote side answers every
  request with the same status code and body.\<close>

definition self0 :: foreman where
  "self0 = Foreman_init ''h'' (PInt 443) ''u'' ''p''"

definition reply_with :: "int \<Rightarrow> pyval \<Rightarrow> server" where
  "reply_with code body log rq =
     Response \<lparr> resp_url = req_url rq, status_code = code, json = Some body \<rparr>"

text \<open>
  The statuses on which a verb wrapper returns the decoded body, as the specification
  gives them: 200 for GET, PUT and DELETE; 200 or 201 for POST.
\<close>

definition success_statuses :: "verb \<Rightarrow> int set" where
  "success_statuses v = (case v of POST \<Rightarrow> {200, 201} | _ \<Rightarrow> {200})"

text \<open>The wrapper of a verb, and the request it sends. \<^verbatim>\<open>_delete_request\<close> takes no data.\<close>

definition verb_wrapper :: "verb \<Rightarrow> server \<Rightarrow> foreman \<Rightarrow> string \<Rightarrow> pyval \<Rightarrow> pyval io" where
  "verb_wrapper v srv self u d =
     (case v of
        GET \<Rightarrow> get_request srv self u d
      | POST \<Rightarrow> post_request srv self u d
      | PUT \<Rightarrow> put_request srv self u d
      | DELETE \<Rightarrow> delete_request srv self u)"

definition verb_rq :: "verb \<Rightarrow> foreman \<Rightarrow> string \<Rightarrow> pyval \<Rightarrow> http_request" where
  "verb_rq v self u d =
     (case v of
        GET \<Rightarrow> get_rq self u d
      | POST \<Rightarrow> post_rq self u d
      | PUT \<Rightarrow> put_rq self u d
      | DELETE \<Rightarrow> delete_rq self u)"

text \<open>A remote side with one host, \<^verbatim>\<open>h1\<close> of id 7: it answers a request to the
  collection with that one result, a request to \<^verbatim>\<open>hosts/7\<close> with the host, and
  anything else with 404.\<close>

definition hosts_server :: server where
  "hosts_server log rq =
     (if req_url rq = ''https://h:443/api/v2/hosts'' then
        Response \<lparr> resp_url = req_url rq, status_code = 200,
          json = Some (PDict [(''results'', PList [PDict [(''id'', PInt 7), (''name'', PStr ''h1'')]])]) \<rparr>
      else if req_url rq = ''https://h:443/api/v2/hosts/7'' then
        Response \<lparr> resp_url = req_url rq, status_code = 200,
          json = Some (PDict [(''id'', PInt 7), (''name'', PStr ''h1''), (''ip'', PStr ''10.0.0.7'')]) \<rparr>
      else
        Response \<lparr> resp_url = req_url rq, status_code = 404,
          json = Some (PDict [(''error'', PDict [(''message'', PStr ''not found'')])]) \<rparr>)"

section \<open>Properties\<close>

lemma map_of_in_keys: "map_of d k = Some v \<Longrightarrow> k \<in> fst ` set d"
  by (metis map_of_eq_None_iff option.distinct(1))

lemma url_of_init:
  "url (Foreman_init ''h'' (PInt 443) ''u'' ''p'') = ''https://h:443/api/v2''"
  by (simp add: Foreman_init_def FOREMAN_API_VERSION_def py_str_def str_int_def
      str_nat.simps digit_char_def)

subsection \<open>The URL builder\<close>

text \<open>
  Claim C5. For all inputs the URL builder produces \<^verbatim>\<open>base/resource_type\<close> and appends
  \<^verbatim>\<open>/resource_id\<close> only when \<open>resource_id\<close> is supplied, \<^verbatim>\<open>/component\<close> only when
  \<open>resource_id\<close> and \<open>component\<close> are, \<^verbatim>\<open>/component_id\<close> only when all three are: the
  result is the specification's hierarchical URL over the segments the arguments stand
  for, an argument left at \<^verbatim>\<open>None\<close> stands for no segment, and a \<open>component\<close> or
  \<open>component_id\<close> without the earlier segments is ignored.
\<close>

theorem url_builder_hierarchical:
  "get_resource_url self rt rid cmpt cid =
     spec_build (url self) rt (segment rid) (segment_str cmpt) (segment cid)
   \<and> segment PNone = None \<and> segment_str None = None
   \<and> get_resource_url self rt PNone cmpt cid = url self @ ''/'' @ rt
   \<and> get_resource_url self rt rid None cid =
       url self @ ''/'' @ rt @ (if py_bool rid then ''/'' @ py_str rid else [])"
  by (simp add: get_resource_url_def spec_build_def segment_def segment_str_def Let_def
      split: option.splits)

text \<open>
  Claim C9. The URL builder tests its arguments by truth value: for every false
  \<open>resource_id\<close> (\<open>0\<close>, the empty string, \<^verbatim>\<open>None\<close>) the id segment and all after it are
  left out, and \<open>get_resource\<close> with an identifier whose \<^verbatim>\<open>'id'\<close> is such a value
  returns \<^verbatim>\<open>None\<close> and sends no request.
\<close>

theorem url_builder_truthiness:
  assumes "\<not> py_bool rid"
  shows "get_resource_url self rt rid cmpt cid = url self @ ''/'' @ rt
    \<and> (map_of d ''id'' = Some rid \<longrightarrow>
         get_resource srv self rt (PDict d) log = (Inr PNone, log))"
proof (intro conjI impI)
  show "get_resource_url self rt rid cmpt cid = url self @ ''/'' @ rt"
    using assms by (simp add: get_resource_url_def)
next
  assume d: "map_of d ''id'' = Some rid"
  then have "''id'' \<in> fst ` set d" by (rule map_of_in_keys)
  with d assms show "get_resource srv self rt (PDict d) log = (Inr PNone, log)"
    by (simp add: get_resource_def py_in_def py_get_def)
qed

theorem url_builder_truthiness_witness:
  "\<not> py_bool (PInt 0) \<and> \<not> py_bool (PStr []) \<and> \<not> py_bool PNone \<and> PInt 0 \<noteq> PNone
   \<and> get_resource_url (Foreman_init ''h'' (PInt 443) ''u'' ''p'') ''hosts'' (PInt 0)
        (Some ''power'') (PInt 7) = ''https://h:443/api/v2/hosts''
   \<and> get_resource (\<lambda>l r. ConnectionFailed) (Foreman_init ''h'' (PInt 443) ''u'' ''p'') ''hosts''
        (PDict [(''id'', PInt 0)]) [] = (Inr PNone, [])"
proof -
  have f: "\<not> py_bool (PInt 0)" by simp
  show ?thesis
    using url_builder_truthiness [OF f, of "Foreman_init ''h'' (PInt 443) ''u'' ''p''" "''hosts''"
        "Some ''power''" "PInt 7" "[(''id'', PInt 0)]" "\<lambda>l r. ConnectionFailed" "[]"]
      url_of_init
    by simp
qed

subsection \<open>The search query\<close>

lemma spec_clause_nonempty: "spec_clause kv \<noteq> []"
  by (simp add: spec_clause_def)

lemma py_join_nonempty: "cs \<noteq> [] \<Longrightarrow> (\<forall>c \<in> set cs. c \<noteq> []) \<Longrightarrow> py_join sep cs \<noteq> []"
  by (induction sep cs rule: py_join.induct) auto

lemma py_join_Cons: "cs \<noteq> [] \<Longrightarrow> py_join sep (c # cs) = c @ sep @ py_join sep cs"
  by (cases cs) auto

lemma search_loop_step:
  assumes "map_of sd k = Some (filter_val v)"
  shows "search_loop sd (k # ks) acc =
     search_loop sd ks ((if acc \<noteq> [] then acc @ '' AND '' else acc) @ spec_clause (k, v))"
  using assms by (cases v) (simp_all add: spec_clause_def Let_def py_str_def)

lemma search_loop_clauses:
  assumes "\<forall>kv \<in> set fs. map_of sd (fst kv) = Some (filter_val (snd kv))"
  shows "search_loop sd (map fst fs) acc =
     Inr (if fs = [] then acc
          else if acc = [] then py_join '' AND '' (map spec_clause fs)
          else acc @ '' AND '' @ py_join '' AND '' (map spec_clause fs))"
  using assms
proof (induction fs arbitrary: acc)
  case Nil
  then show ?case by simp
next
  case (Cons kv fs)
  obtain k v where kv: "kv = (k, v)" by (cases kv)
  from Cons.prems have look: "map_of sd k = Some (filter_val v)"
    and rest: "\<forall>kv \<in> set fs. map_of sd (fst kv) = Some (filter_val (snd kv))"
    by (simp_all add: kv)
  define acc' where "acc' = (if acc \<noteq> [] then acc @ '' AND '' else acc) @ spec_clause (k, v)"
  have ne: "acc' \<noteq> []"
    by (simp add: acc'_def spec_clause_nonempty)
  have "search_loop sd (map fst (kv # fs)) acc = search_loop sd (map fst fs) acc'"
    using search_loop_step [OF look] by (simp add: kv acc'_def)
  also have "\<dots> = Inr (if fs = [] then acc'
       else acc' @ '' AND '' @ py_join '' AND '' (map spec_clause fs))"
    using Cons.IH [OF rest, of acc'] ne by simp
  also have "\<dots> = Inr (if acc = [] then py_join '' AND '' (map spec_clause (kv # fs))
       else acc @ '' AND '' @ py_join '' AND '' (map spec_clause (kv # fs)))"
    by (cases fs) (simp_all add: acc'_def kv)
  finally show ?case by simp
qed

lemma map_of_filter_dict:
  assumes "distinct (map fst fs)" "kv \<in> set fs"
  shows "map_of (filter_dict fs) (fst kv) = Some (filter_val (snd kv))"
proof -
  have d: "distinct (map fst (filter_dict fs))"
    using assms(1) by (simp add: filter_dict_def comp_def case_prod_unfold)
  have "(fst kv, filter_val (snd kv)) \<in> set (filter_dict fs)"
    using assms(2) by (force simp: filter_dict_def)
  with d show ?thesis by simp
qed

lemma keys_filter_dict: "map fst (filter_dict fs) = map fst fs"
  by (simp add: filter_dict_def comp_def case_prod_unfold)

text \<open>
  Claim C6. For every filter mapping the query built by \<open>search_resource\<close> is one
  \<^verbatim>\<open>key == value\<close> clause per entry, in the order of the mapping, a string value in
  double quotes and an integer value bare, joined by \<^verbatim>\<open>" AND "\<close>; the empty mapping
  gives the empty string.
\<close>

theorem search_query_clauses:
  assumes "distinct (map fst fs)"
  shows "search_query (PDict (filter_dict fs)) = Inr (spec_search_query fs)
    \<and> search_query (PDict []) = Inr []"
proof -
  have "\<forall>kv \<in> set fs. map_of (filter_dict fs) (fst kv) = Some (filter_val (snd kv))"
    using assms by (blast intro: map_of_filter_dict)
  from search_loop_clauses [OF this, of "[]"]
  show ?thesis
    by (simp add: search_query_def keys_filter_dict spec_search_query_def)
qed

theorem search_query_clauses_witness:
  "distinct (map fst [(''name'', FStr ''x''), (''id'', FInt 5)])
   \<and> search_query (PDict [(''name'', PStr ''x''), (''id'', PInt 5)])
       = Inr (''name == '' @ [CHR 0x22] @ ''x'' @ [CHR 0x22] @ '' AND id == 5'')"
proof -
  have d: "distinct (map fst [(''name'', FStr ''x''), (''id'', FInt 5)])" by simp
  have five: "str_int 5 = ''5''"
    by (simp add: str_int_def str_nat.simps digit_char_def)
  show ?thesis
    using search_query_clauses [OF d] five
    by (simp add: filter_dict_def spec_search_query_def spec_clause_def)
qed

subsection \<open>What the wrappers send and return\<close>

lemma get_request_log: "snd (get_request srv self u d log) = log @ [get_rq self u d]"
  by (simp add: get_request_def get_rq_def Let_def split: reply.splits)

lemma post_request_log: "snd (post_request srv self u d log) = log @ [post_rq self u d]"
  by (simp add: post_request_def post_rq_def Let_def split: reply.splits)

lemma put_request_log: "snd (put_request srv self u d log) = log @ [put_rq self u d]"
  by (simp add: put_request_def put_rq_def Let_def split: reply.splits)

lemma delete_request_log: "snd (delete_request srv self u log) = log @ [delete_rq self u]"
  by (simp add: delete_request_def delete_rq_def Let_def split: reply.splits)

lemma get_request_ok:
  assumes "srv log (get_rq self u d) = Response resp" "status_code resp = 200" "json resp = Some b"
  shows "fst (get_request srv self u d log) = Inr b"
  using assms by (simp add: get_request_def get_rq_def Let_def json_loads_def)

lemma post_request_ok:
  assumes "srv log (post_rq self u d) = Response resp" "status_code resp \<in> {200, 201}"
    "json resp = Some b"
  shows "fst (post_request srv self u d log) = Inr b"
  using assms by (auto simp add: post_request_def post_rq_def Let_def json_loads_def)

lemma collection_url [simp]:
  "get_resource_url self rt PNone c i = url self @ ''/'' @ rt"
  by (simp add: get_resource_url_def)

lemma url_self0: "url self0 = ''https://h:443/api/v2''"
  by (simp add: self0_def Foreman_init_def FOREMAN_API_VERSION_def py_str_def str_int_def
      str_nat.simps digit_char_def)

subsection \<open>Search\<close>

text \<open>
  Claim C4. When the server answers a search with a results list of exactly one
  element, \<open>search_resource\<close> returns that element itself; a list of no element or of
  two or more is returned as it is.
\<close>

theorem search_collapse:
  assumes q: "search_query sd = Inr q"
    and r: "srv log (get_rq self (url self @ ''/'' @ rt) (PDict [(''search'', PStr q)])) = Response resp"
    and s: "status_code resp = 200"
    and b: "json resp = Some (PDict body)"
    and xs: "map_of body ''results'' = Some (PList xs)"
  shows "fst (search_resource srv self rt sd log) =
      Inr (case xs of [x] \<Rightarrow> x | _ \<Rightarrow> PList xs)"
proof -
  let ?u = "url self @ ''/'' @ rt" and ?d = "PDict [(''search'', PStr q)]"
  have "fst (get_request srv self ?u ?d log) = Inr (PDict body)"
    using r s b by (rule get_request_ok)
  then obtain log' where g: "get_request srv self ?u ?d log = (Inr (PDict body), log')"
    by (cases "get_request srv self ?u ?d log") simp
  show ?thesis
  proof (cases xs)
    case Nil
    then show ?thesis using q g xs
      by (simp add: search_resource_def py_get_def py_len_def exn_bind_def)
  next
    case (Cons x ys)
    then show ?thesis using q g xs
      by (cases ys) (simp_all add: search_resource_def py_get_def py_len_def py_item0_def exn_bind_def)
  qed
qed


theorem search_collapse_witness:
  "fst (search_resource
      (reply_with 200 (PDict [(''results'', PList [PDict [(''id'', PInt 7)]])]))
      self0 ''hosts'' (PDict [(''name'', PStr ''h1'')]) []) = Inr (PDict [(''id'', PInt 7)])
   \<and> fst (search_resource
      (reply_with 200 (PDict [(''results'', PList [PInt 1, PInt 2])]))
      self0 ''hosts'' (PDict [(''name'', PStr ''h1'')]) []) = Inr (PList [PInt 1, PInt 2])
   \<and> fst (search_resource
      (reply_with 200 (PDict [(''results'', PList [])]))
      self0 ''hosts'' (PDict [(''name'', PStr ''h1'')]) []) = Inr (PList [])"
proof -
  have q: "search_query (PDict [(''name'', PStr ''h1'')]) = Inr (''name == '' @ [CHR 0x22] @ ''h1'' @ [CHR 0x22])"
    by (simp add: search_query_def)
  have r: "reply_with c b [] (get_rq self0 (url self0 @ ''/'' @ ''hosts'')
      (PDict [(''search'', PStr (''name == '' @ [CHR 0x22] @ ''h1'' @ [CHR 0x22]))])) =
      Response \<lparr> resp_url = url self0 @ ''/'' @ ''hosts'', status_code = c, json = Some b \<rparr>" for c b
    by (simp add: reply_with_def get_rq_def)
  show ?thesis
    using
      search_collapse [where srv = "reply_with 200 (PDict [(''results'', PList [PDict [(''id'', PInt 7)]])])"
        and log = "[]" and xs = "[PDict [(''id'', PInt 7)]]", OF q r]
      search_collapse [where srv = "reply_with 200 (PDict [(''results'', PList [PInt 1, PInt 2])])"
        and log = "[]" and xs = "[PInt 1, PInt 2]", OF q r]
      search_collapse [where srv = "reply_with 200 (PDict [(''results'', PList [])])"
        and log = "[]" and xs = "[]", OF q r]
    by simp
qed

subsection \<open>Create\<close>

lemma dict_set_append: "k \<notin> fst ` set d \<Longrightarrow> dict_set d k v = d @ [(k, v)]"
  by (induction d) auto

lemma map_of_dict_set: "map_of (dict_set d k v) = (map_of d)(k \<mapsto> v)"
  by (induction d) (auto simp: fun_eq_iff)

lemma keys_dict_set: "fst ` set (dict_set d k v) = insert k (fst ` set d)"
proof -
  have "dom (map_of (dict_set d k v)) = insert k (dom (map_of d))"
    by (simp add: map_of_dict_set)
  then show ?thesis
    by (simp add: dom_map_of_conv_image_fst)
qed

lemma distinct_dict_set: "distinct (map fst d) \<Longrightarrow> distinct (map fst (dict_set d k v))"
  by (induction d) (auto simp: keys_dict_set)

lemma copy_loop_suffix:
  assumes "distinct (map fst (xs @ ys))"
  shows "copy_loop (xs @ ys) (map fst ys) xs = Inr (xs @ ys)"
  using assms
proof (induction ys arbitrary: xs)
  case Nil
  then show ?case by simp
next
  case (Cons kv ys)
  obtain k v where kv: "kv = (k, v)" by (cases kv)
  from Cons.prems have nk: "k \<notin> fst ` set xs" by (auto simp: kv)
  then have "map_of xs k = None"
    by (simp add: map_of_eq_None_iff)
  then have look: "map_of (xs @ kv # ys) k = Some v"
    by (simp add: kv map_add_def)
  have "copy_loop (xs @ kv # ys) (map fst (kv # ys)) xs =
      copy_loop ((xs @ [kv]) @ ys) (map fst ys) (xs @ [kv])"
    using look nk by (simp add: kv dict_set_append)
  also have "\<dots> = Inr ((xs @ [kv]) @ ys)"
    using Cons.prems by (intro Cons.IH) simp
  finally show ?case by simp
qed

lemma copy_loop_all: "wf_dict ad \<Longrightarrow> copy_loop ad (map fst ad) [] = Inr ad"
  using copy_loop_suffix [of "[]" ad] by (simp add: wf_dict_def)

text \<open>The body of the request that \<open>post_resource\<close> sends.\<close>

lemma post_resource_dict:
  assumes "wf_dict extra"
  shows "post_resource srv self rt resource data (PDict extra) log =
     post_request srv self (url self @ ''/'' @ rt) (PDict (dict_set extra resource data)) log"
proof (cases "extra = []")
  case True
  then show ?thesis by (simp add: post_resource_def)
next
  case False
  then show ?thesis using copy_loop_all [OF assms] by (simp add: post_resource_def)
qed

lemma post_resource_none:
  "post_resource srv self rt resource data PNone log =
     post_request srv self (url self @ ''/'' @ rt) (PDict [(resource, data)]) log"
  by (simp add: post_resource_def)

text \<open>
  Claim C7. A create call sends one POST to the collection endpoint
  \<^verbatim>\<open>base/resource_type\<close>; its body has the entries of the extra mapping at top level and
  the payload under the wrapper key; on success (200 or 201) the decoded response body is
  returned as it is.
\<close>

theorem create_posts_wrapped_payload:
  assumes "wf_dict extra"
    and "additional_data = PDict extra \<or> additional_data = PNone \<and> extra = []"
  shows "snd (post_resource srv self rt resource data additional_data log) =
       log @ [post_rq self (url self @ ''/'' @ rt) (PDict (dict_set extra resource data))]
     \<and> map_of (dict_set extra resource data) = (map_of extra)(resource \<mapsto> data)
     \<and> (srv log (post_rq self (url self @ ''/'' @ rt) (PDict (dict_set extra resource data)))
           = Response resp \<and> status_code resp \<in> {200, 201} \<and> json resp = Some b
         \<longrightarrow> fst (post_resource srv self rt resource data additional_data log) = Inr b)"
proof -
  have eq: "post_resource srv self rt resource data additional_data log =
     post_request srv self (url self @ ''/'' @ rt) (PDict (dict_set extra resource data)) log"
    using assms post_resource_dict [OF assms(1)] post_resource_none by auto
  show ?thesis
    unfolding eq 
    by (intro conjI impI post_request_log map_of_dict_set) (erule conjE, erule conjE, rule post_request_ok)
qed

theorem create_posts_wrapped_payload_witness:
  "snd (post_resource
        (reply_with 201 (PDict [(''id'', PInt 3), (''name'', PStr ''example.com'')]))
        self0 ''domains'' ''domain'' (PDict [(''name'', PStr ''example.com'')]) PNone []) =
     [post_rq self0 ''https://h:443/api/v2/domains''
        (PDict [(''domain'', PDict [(''name'', PStr ''example.com'')])])]
   \<and> fst (post_resource
        (reply_with 201 (PDict [(''id'', PInt 3), (''name'', PStr ''example.com'')]))
        self0 ''domains'' ''domain'' (PDict [(''name'', PStr ''example.com'')]) PNone []) =
     Inr (PDict [(''id'', PInt 3), (''name'', PStr ''example.com'')])"
proof -
  have w: "wf_dict []" by (simp add: wf_dict_def)
  have a: "PNone = PDict [] \<or> PNone = PNone \<and> ([] :: pydict) = []" by simp
  show ?thesis
    using create_posts_wrapped_payload [OF w a,
      of "reply_with 201 (PDict [(''id'', PInt 3), (''name'', PStr ''example.com'')])"
         self0 "''domains''" "''domain''" "PDict [(''name'', PStr ''example.com'')]" "[]"
         "\<lparr> resp_url = ''https://h:443/api/v2/domains'', status_code = 201,
            json = Some (PDict [(''id'', PInt 3), (''name'', PStr ''example.com'')]) \<rparr>"
         "PDict [(''id'', PInt 3), (''name'', PStr ''example.com'')]"]
    by (simp add: url_self0 reply_with_def post_rq_def)
qed

text \<open>
  Claim C10. When the extra mapping has the wrapper key itself, the payload replaces that
  entry: the body's value at the wrapper key is the payload, and the body has the keys of
  the extra mapping, in their order.
\<close>

theorem create_payload_overwrites_extra:
  assumes "wf_dict extra" and "map_of extra resource = Some old"
  shows "snd (post_resource srv self rt resource data (PDict extra) log) =
       log @ [post_rq self (url self @ ''/'' @ rt) (PDict (dict_set extra resource data))]
     \<and> map_of (dict_set extra resource data) resource = Some data
     \<and> map fst (dict_set extra resource data) = map fst extra"
proof -
  have k: "map fst (dict_set d resource data) = map fst d" if "resource \<in> fst ` set d" for d
    using that by (induction d) (auto simp: rev_image_eqI)
  show ?thesis
    using post_resource_dict [OF assms(1)] map_of_in_keys [OF assms(2)]
    by (simp add: post_request_log map_of_dict_set k)
qed

theorem create_payload_overwrites_extra_witness:
  "snd (post_resource (reply_with 201 PNone) self0 ''compute_attributes'' ''compute_attribute''
        (PDict [(''vm_attrs'', PInt 1)])
        (PDict [(''compute_attribute'', PStr ''old''), (''compute_profile_id'', PInt 2)]) []) =
     [post_rq self0 ''https://h:443/api/v2/compute_attributes''
        (PDict [(''compute_attribute'', PDict [(''vm_attrs'', PInt 1)]),
                (''compute_profile_id'', PInt 2)])]"
proof -
  have w: "wf_dict [(''compute_attribute'', PStr ''old''), (''compute_profile_id'', PInt 2)]"
    by (simp add: wf_dict_def)
  have m: "map_of [(''compute_attribute'', PStr ''old''), (''compute_profile_id'', PInt 2)]
      ''compute_attribute'' = Some (PStr ''old'')" by simp
  show ?thesis
    using create_payload_overwrites_extra [OF w m, of "reply_with 201 PNone" self0
        "''compute_attributes''" "PDict [(''vm_attrs'', PInt 1)]" "[]"]
    by (simp add: url_self0)
qed


subsection \<open>Delete\<close>

lemma str_nat_nonempty: "str_nat n \<noteq> []"
  by (subst str_nat.simps) simp

lemma str_int_nonempty: "str_int i \<noteq> []"
  by (simp add: str_int_def str_nat_nonempty)

lemma str_int_3: "str_int 3 = ''3''"
  by (simp add: str_int_def str_nat.simps digit_char_def)

text \<open>
  Claim C8. A delete call whose identifier has an integer \<^verbatim>\<open>'id'\<close> sends one DELETE to
  \<^verbatim>\<open>base/resource_type/id\<close>, whatever other fields the identifier has; and whatever the
  identifier is, delete sends nothing but at most one DELETE: it never searches.
\<close>

theorem delete_by_id:
  assumes "map_of d ''id'' = Some (PInt n)"
  shows "snd (delete_resource srv self rt (PDict d) log) =
       log @ [delete_rq self (url self @ ''/'' @ rt @ ''/'' @ str_int n)]
     \<and> (snd (delete_resource srv self rt data log) = log
        \<or> (\<exists>u. snd (delete_resource srv self rt data log) = log @ [delete_rq self u]))"
proof (intro conjI)
  show "snd (delete_resource srv self rt (PDict d) log) =
       log @ [delete_rq self (url self @ ''/'' @ rt @ ''/'' @ str_int n)]"
    using assms
    by (simp add: delete_resource_def py_get_def delete_request_log get_resource_url_def
        py_str_def str_int_nonempty)
next
  show "snd (delete_resource srv self rt data log) = log
        \<or> (\<exists>u. snd (delete_resource srv self rt data log) = log @ [delete_rq self u])"
    by (cases "py_get data ''id''") (auto simp add: delete_resource_def delete_request_log)
qed

theorem delete_by_id_witness:
  "snd (delete_resource (reply_with 404 (PDict [(''error'', PDict [(''message'', PStr ''not found'')])]))
         self0 ''domains'' (PDict [(''name'', PStr ''example.com''), (''id'', PInt 3)]) []) =
     [delete_rq self0 ''https://h:443/api/v2/domains/3'']
   \<and> req_verb (delete_rq self0 ''https://h:443/api/v2/domains/3'') = DELETE"
proof -
  have m: "map_of [(''name'', PStr ''example.com''), (''id'', PInt 3)] ''id'' = Some (PInt 3)"
    by simp
  show ?thesis
    using delete_by_id [OF m, of
        "reply_with 404 (PDict [(''error'', PDict [(''message'', PStr ''not found'')])])"
        self0 "''domains''" "[]" PNone]
    by (simp add: url_self0 str_int_3 delete_rq_def)
qed

text \<open>The scenario of the specification: the server answers 404 with
  \<^verbatim>\<open>{"error": {"message": "not found"}}\<close>.\<close>

lemma delete_scenario:
  "fst (delete_resource (reply_with 404 (PDict [(''error'', PDict [(''message'', PStr ''not found'')])]))
         self0 ''domains'' (PDict [(''id'', PInt 3)]) []) =
     Inl (ForemanError ''https://h:443/api/v2/domains/3''
           (PDict [(''error'', PDict [(''message'', PStr ''not found'')])]) 404 (PStr ''not found''))"
  by (simp add: delete_resource_def py_get_def get_resource_url_def py_str_def str_int_3
      url_self0 delete_request_def reply_with_def json_loads_def exn_bind_def Let_def)

subsection \<open>Status codes\<close>

text \<open>What each wrapper returns for a response whose text decodes to \<open>body\<close>.\<close>

lemma get_request_returns:
  assumes "srv log (get_rq self u d) = Response resp" "json resp = Some body"
  shows "fst (get_request srv self u d log) =
     (if status_code resp = 200 then Inr body
      else exn_bind (py_get body ''error'') (\<lambda>e. exn_bind (py_get e ''message'') (\<lambda>m.
             Inl (ForemanError (resp_url resp) body (status_code resp) m))))"
  using assms by (simp add: get_request_def get_rq_def Let_def json_loads_def exn_bind_def)

lemma put_request_returns:
  assumes "srv log (put_rq self u d) = Response resp" "json resp = Some body"
  shows "fst (put_request srv self u d log) =
     (if status_code resp = 200 then Inr body
      else exn_bind (py_get body ''error'') (\<lambda>e. exn_bind (py_get e ''message'') (\<lambda>m.
             Inl (ForemanError (resp_url resp) body (status_code resp) m))))"
  using assms by (simp add: put_request_def put_rq_def Let_def json_loads_def exn_bind_def)

lemma delete_request_returns:
  assumes "srv log (delete_rq self u) = Response resp" "json resp = Some body"
  shows "fst (delete_request srv self u log) =
     (if status_code resp = 200 then Inr body
      else exn_bind (py_get body ''error'') (\<lambda>e. exn_bind (py_get e ''message'') (\<lambda>m.
             Inl (ForemanError (resp_url resp) body (status_code resp) m))))"
  using assms by (simp add: delete_request_def delete_rq_def Let_def json_loads_def exn_bind_def)

lemma post_request_returns:
  assumes "srv log (post_rq self u d) = Response resp" "json resp = Some body"
  shows "fst (post_request srv self u d log) =
     (if status_code resp = 200 \<or> status_code resp = 201 then Inr body
      else exn_bind (py_get body ''error'') (\<lambda>e.
           exn_bind (py_in ''message'' e) (\<lambda>has_message.
             if has_message then
               exn_bind (py_get e ''message'') (\<lambda>m.
                 Inl (ForemanError (resp_url resp) body (status_code resp) m))
             else Inl AttributeError)))"
  using assms
  by (auto simp add: post_request_def post_rq_def Let_def json_loads_def exn_bind_def
      py_has_key_def split: sum.splits)

lemma exn_bind_not_value: "(\<And>x. \<exists>e. f x = Inl e) \<Longrightarrow> \<exists>e. exn_bind m f = Inl e"
  by (cases m) (simp_all add: exn_bind_def)

lemma wrapper_outcome:
  assumes "srv log (verb_rq v self u d) = Response resp" "json resp = Some body"
  shows "status_code resp \<in> success_statuses v \<and> fst (verb_wrapper v srv self u d log) = Inr body
    \<or> status_code resp \<notin> success_statuses v \<and> (\<exists>e. fst (verb_wrapper v srv self u d log) = Inl e)"
proof -
  have raise: "\<exists>x. exn_bind (py_get body ''error'') (\<lambda>e. exn_bind (py_get e ''message'') (\<lambda>m.
             Inl (ForemanError (resp_url resp) body (status_code resp) m))) = Inl x"
    by (intro exn_bind_not_value) simp
  have raise_post: "\<exists>x. exn_bind (py_get body ''error'') (\<lambda>e.
           exn_bind (py_in ''message'' e) (\<lambda>has_message.
             if has_message then
               exn_bind (py_get e ''message'') (\<lambda>m.
                 Inl (ForemanError (resp_url resp) body (status_code resp) m))
             else Inl AttributeError)) = Inl x"
    by (intro exn_bind_not_value) (simp add: exn_bind_not_value)
  show ?thesis
  proof (cases v)
    case GET
    with assms have "fst (verb_wrapper v srv self u d log) =
       (if status_code resp = 200 then Inr body
        else exn_bind (py_get body ''error'') (\<lambda>e. exn_bind (py_get e ''message'') (\<lambda>m.
             Inl (ForemanError (resp_url resp) body (status_code resp) m))))"
      by (simp add: verb_wrapper_def verb_rq_def get_request_returns)
    with raise show ?thesis by (auto simp add: GET success_statuses_def)
  next
    case POST
    with assms have "fst (verb_wrapper v srv self u d log) =
       (if status_code resp = 200 \<or> status_code resp = 201 then Inr body
        else exn_bind (py_get body ''error'') (\<lambda>e.
           exn_bind (py_in ''message'' e) (\<lambda>has_message.
             if has_message then
               exn_bind (py_get e ''message'') (\<lambda>m.
                 Inl (ForemanError (resp_url resp) body (status_code resp) m))
             else Inl AttributeError)))"
      by (simp add: verb_wrapper_def verb_rq_def post_request_returns)
    with raise_post show ?thesis by (auto simp add: POST success_statuses_def)
  next
    case PUT
    with assms have "fst (verb_wrapper v srv self u d log) =
       (if status_code resp = 200 then Inr body
        else exn_bind (py_get body ''error'') (\<lambda>e. exn_bind (py_get e ''message'') (\<lambda>m.
             Inl (ForemanError (resp_url resp) body (status_code resp) m))))"
      by (simp add: verb_wrapper_def verb_rq_def put_request_returns)
    with raise show ?thesis by (auto simp add: PUT success_statuses_def)
  next
    case DELETE
    with assms have "fst (verb_wrapper v srv self u d log) =
       (if status_code resp = 200 then Inr body
        else exn_bind (py_get body ''error'') (\<lambda>e. exn_bind (py_get e ''message'') (\<lambda>m.
             Inl (ForemanError (resp_url resp) body (status_code resp) m))))"
      by (simp add: verb_wrapper_def verb_rq_def delete_request_returns)
    with raise show ?thesis by (auto simp add: DELETE success_statuses_def)
  qed
qed

lemma wrapper_raises_foreman_error:
  assumes "srv log (verb_rq v self u d) = Response resp" "json resp = Some (PDict b)"
    and "status_code resp \<notin> success_statuses v"
    and "map_of b ''error'' = Some (PDict e)"
    and "v = POST \<longrightarrow> ''message'' \<in> fst ` set e"
  shows "fst (verb_wrapper v srv self u d log) =
     Inl (ForemanError (resp_url resp) (PDict b) (status_code resp)
           (case map_of e ''message'' of None \<Rightarrow> PNone | Some m \<Rightarrow> m))"
proof (cases v)
  case GET
  then show ?thesis using assms
    by (simp add: verb_wrapper_def verb_rq_def success_statuses_def get_request_returns
        py_get_def exn_bind_def)
next
  case POST
  then show ?thesis using assms
    by (simp add: verb_wrapper_def verb_rq_def success_statuses_def post_request_returns
        py_get_def py_in_def exn_bind_def)
next
  case PUT
  then show ?thesis using assms
    by (simp add: verb_wrapper_def verb_rq_def success_statuses_def put_request_returns
        py_get_def exn_bind_def)
next
  case DELETE
  then show ?thesis using assms
    by (simp add: verb_wrapper_def verb_rq_def success_statuses_def delete_request_returns
        py_get_def exn_bind_def)
qed


text \<open>
  Claim C1. GET, PUT and DELETE return the decoded body exactly when the status is 200,
  POST exactly when it is 200 or 201, and any other status raises \<open>ForemanError\<close> with
  the response's status code. As stated this fails: the error is built from
  \<^verbatim>\<open>req.json().get('error').get('message')\<close>, so a body without an \<^verbatim>\<open>error\<close> object
  raises \<open>AttributeError\<close> instead.
\<close>

theorem status_mapping_counterexample:
  "fst (verb_wrapper GET (reply_with 404 (PDict [(''message'', PStr ''not found'')])) self0
         ''https://h:443/api/v2/hosts/1'' PNone []) = Inl AttributeError"
  by (simp add: verb_wrapper_def get_request_def reply_with_def json_loads_def exn_bind_def
      py_get_def Let_def)

text \<open>
  Claim C1, amended. For a response whose text decodes as JSON, a wrapper returns a value
  exactly when the status is 200 (POST: 200 or 201), and the value is the decoded body;
  for any other status it raises, and when the body is an object whose \<^verbatim>\<open>error\<close> member
  is an object (for POST: one with a \<^verbatim>\<open>message\<close> key) it raises \<open>ForemanError\<close> with
  the response's URL, the decoded body, the response's status code and the \<^verbatim>\<open>message\<close>
  member (\<^verbatim>\<open>None\<close> when there is none).
\<close>

theorem status_mapping:
  assumes "srv log (verb_rq v self u d) = Response resp" and "json resp = Some body"
  shows "(fst (verb_wrapper v srv self u d log) = Inr body
            \<longleftrightarrow> status_code resp \<in> success_statuses v)
     \<and> ((\<exists>x. fst (verb_wrapper v srv self u d log) = Inr x)
            \<longleftrightarrow> status_code resp \<in> success_statuses v)
     \<and> (status_code resp \<notin> success_statuses v \<and> body = PDict b
          \<and> map_of b ''error'' = Some (PDict e) \<and> (v = POST \<longrightarrow> ''message'' \<in> fst ` set e)
        \<longrightarrow> fst (verb_wrapper v srv self u d log) =
              Inl (ForemanError (resp_url resp) body (status_code resp)
                    (case map_of e ''message'' of None \<Rightarrow> PNone | Some m \<Rightarrow> m)))
     \<and> success_statuses GET = {200} \<and> success_statuses PUT = {200}
     \<and> success_statuses DELETE = {200} \<and> success_statuses POST = {200, 201}"
proof (intro conjI impI)
  note o = wrapper_outcome [where srv = srv and log = log, OF assms]
  show "fst (verb_wrapper v srv self u d log) = Inr body
            \<longleftrightarrow> status_code resp \<in> success_statuses v"
    using o by auto
  show "(\<exists>x. fst (verb_wrapper v srv self u d log) = Inr x)
            \<longleftrightarrow> status_code resp \<in> success_statuses v"
    using o by auto
next
  assume a: "status_code resp \<notin> success_statuses v \<and> body = PDict b
          \<and> map_of b ''error'' = Some (PDict e) \<and> (v = POST \<longrightarrow> ''message'' \<in> fst ` set e)"
  with assms have "srv log (verb_rq v self u d) = Response resp" "json resp = Some (PDict b)"
    "status_code resp \<notin> success_statuses v" "map_of b ''error'' = Some (PDict e)"
    "v = POST \<longrightarrow> ''message'' \<in> fst ` set e"
    by simp_all
  then have "fst (verb_wrapper v srv self u d log) =
     Inl (ForemanError (resp_url resp) (PDict b) (status_code resp)
           (case map_of e ''message'' of None \<Rightarrow> PNone | Some m \<Rightarrow> m))"
    by (rule wrapper_raises_foreman_error)
  with a show "fst (verb_wrapper v srv self u d log) =
              Inl (ForemanError (resp_url resp) body (status_code resp)
                    (case map_of e ''message'' of None \<Rightarrow> PNone | Some m \<Rightarrow> m))"
    by simp
qed (simp_all add: success_statuses_def)

theorem status_mapping_witness:
  "fst (post_request (reply_with 422 (PDict [(''error'', PDict [(''message'', PStr ''Name taken'')])]))
         self0 ''https://h:443/api/v2/domains'' (PDict [(''domain'', PDict [])]) []) =
     Inl (ForemanError ''https://h:443/api/v2/domains''
           (PDict [(''error'', PDict [(''message'', PStr ''Name taken'')])]) 422 (PStr ''Name taken''))
   \<and> (422 :: int) \<notin> success_statuses POST"
proof -
  let ?body = "PDict [(''error'', PDict [(''message'', PStr ''Name taken'')])]"
  let ?d = "PDict [(''domain'', PDict [])]"
  let ?resp = "\<lparr> resp_url = ''https://h:443/api/v2/domains'', status_code = 422, json = Some ?body \<rparr>"
  have r: "reply_with 422 ?body [] (verb_rq POST self0 ''https://h:443/api/v2/domains'' ?d) = Response ?resp"
    by (simp add: reply_with_def verb_rq_def post_rq_def)
  have j: "json ?resp = Some ?body" by simp
  show ?thesis
    using status_mapping [where srv = "reply_with 422 ?body" and log = "[]", OF r j,
        of "[(''error'', PDict [(''message'', PStr ''Name taken'')])]"
           "[(''message'', PStr ''Name taken'')]"]
    by (simp add: verb_wrapper_def)
qed

subsection \<open>The error message of a failed POST\<close>

lemma post_request_without_message:
  assumes "srv log (post_rq self u d) = Response resp" "json resp = Some (PDict b)"
    and "status_code resp \<noteq> 200" "status_code resp \<noteq> 201"
    and "map_of b ''error'' = Some (PDict e)" and "''message'' \<notin> fst ` set e"
  shows "fst (post_request srv self u d log) = Inl AttributeError"
  using assms by (simp add: post_request_returns py_get_def py_in_def exn_bind_def)

text \<open>
  Claim C2. The message of a failed POST is the \<^verbatim>\<open>message\<close> member of the error object,
  else its \<^verbatim>\<open>full_messages\<close> joined with \<^verbatim>\<open>", "\<close>, else the error object itself. The
  code tests \<^verbatim>\<open>'full_messages' in request_error.has_key\<close>, which raises: for an error
  object with \<^verbatim>\<open>full_messages\<close> and no \<^verbatim>\<open>message\<close>, and for one with neither,
  \<open>post_request\<close> raises \<open>AttributeError\<close> and no \<open>ForemanError\<close>.
\<close>

theorem post_full_messages_raises:
  "fst (post_request
         (reply_with 422 (PDict [(''error'',
            PDict [(''full_messages'', PList [PStr ''Name is blank'', PStr ''Name is invalid''])])]))
         self0 ''https://h:443/api/v2/domains'' (PDict [(''domain'', PDict [])]) [])
     = Inl AttributeError
   \<and> fst (post_request
         (reply_with 500 (PDict [(''error'', PDict [(''detail'', PStr ''boom'')])]))
         self0 ''https://h:443/api/v2/domains'' (PDict [(''domain'', PDict [])]) [])
     = Inl AttributeError"
  by (simp add: post_request_def reply_with_def json_loads_def exn_bind_def py_get_def
      py_in_def py_has_key_def Let_def)

subsection \<open>Lookup\<close>

lemma q_h1: "search_query (PDict [(''name'', PStr ''h1'')]) = Inr (''name == '' @ [CHR 0x22] @ ''h1'' @ [CHR 0x22])"
  by (simp add: search_query_def)

text \<open>
  Claim C3. A lookup whose identifier has an \<^verbatim>\<open>'id'\<close> uses it with no search; otherwise
  it searches, and a search of no match or of two or more matches gives \<^verbatim>\<open>None\<close>
  rather than an error. The code guards \<^verbatim>\<open>resource.get('id')\<close> with
  \<^verbatim>\<open>resource and 'id' and resource\<close>, which holds of every non-empty result: for a
  search of two matches the result is a list, and \<open>get_resource\<close> raises
  \<open>AttributeError\<close> after the one search request.
\<close>

theorem get_resource_ambiguous_raises:
  "get_resource
     (reply_with 200 (PDict [(''results'', PList [PDict [(''id'', PInt 1)], PDict [(''id'', PInt 2)]])]))
     self0 ''hosts'' (PDict [(''name'', PStr ''h1'')]) []
   = (Inl AttributeError,
      [get_rq self0 ''https://h:443/api/v2/hosts''
         (PDict [(''search'', PStr (''name == '' @ [CHR 0x22] @ ''h1'' @ [CHR 0x22]))])])"
  by (simp add: get_resource_def py_in_def search_resource_def q_h1 url_self0 get_request_def
      reply_with_def json_loads_def exn_bind_def py_get_def py_len_def get_rq_def Let_def)

text \<open>The parts of the lookup that hold: an identifier with a true \<^verbatim>\<open>'id'\<close> goes
  to the resource with no search; one with neither \<^verbatim>\<open>'id'\<close> nor \<^verbatim>\<open>'name'\<close> gives
  \<^verbatim>\<open>None\<close> with no request; a search of no match gives \<^verbatim>\<open>None\<close>; a search of one
  match is followed by a GET of that resource.\<close>

lemma get_resource_by_id:
  assumes "map_of d ''id'' = Some rid" "py_bool rid"
  shows "get_resource srv self rt (PDict d) log =
     get_request srv self (url self @ ''/'' @ rt @ ''/'' @ py_str rid) PNone log"
  using assms map_of_in_keys [OF assms(1)]
  by (simp add: get_resource_def py_in_def py_get_def get_resource_url_def)

lemma get_resource_neither:
  assumes "''id'' \<notin> fst ` set d" "''name'' \<notin> fst ` set d"
  shows "get_resource srv self rt (PDict d) log = (Inr PNone, log)"
  using assms by (simp add: get_resource_def py_in_def)

lemma get_resource_no_match:
  "get_resource (reply_with 200 (PDict [(''results'', PList [])]))
     self0 ''hosts'' (PDict [(''name'', PStr ''h1'')]) []
   = (Inr PNone,
      [get_rq self0 ''https://h:443/api/v2/hosts''
         (PDict [(''search'', PStr (''name == '' @ [CHR 0x22] @ ''h1'' @ [CHR 0x22]))])])"
  by (simp add: get_resource_def py_in_def search_resource_def q_h1 url_self0 get_request_def
      reply_with_def json_loads_def exn_bind_def py_get_def py_len_def get_rq_def Let_def)

lemma str_int_7: "str_int 7 = ''7''"
  by (simp add: str_int_def str_nat.simps digit_char_def)

lemma get_resource_scenario:
  "get_resource hosts_server self0 ''hosts'' (PDict [(''name'', PStr ''h1'')]) []
   = (Inr (PDict [(''id'', PInt 7), (''name'', PStr ''h1''), (''ip'', PStr ''10.0.0.7'')]),
      [get_rq self0 ''https://h:443/api/v2/hosts''
         (PDict [(''search'', PStr (''name == '' @ [CHR 0x22] @ ''h1'' @ [CHR 0x22]))]),
       get_rq self0 ''https://h:443/api/v2/hosts/7'' PNone])"
  by (simp add: get_resource_def py_in_def search_resource_def q_h1 url_self0 get_request_def
      hosts_server_def json_loads_def exn_bind_def py_get_def py_len_def py_item0_def get_rq_def
      get_resource_url_def py_str_def str_int_7 Let_def)

text \<open>For every search answer that is a list: no match gives \<^verbatim>\<open>None\<close>, two or more
  matches raise \<open>AttributeError\<close>, in both cases after the one search request.\<close>

lemma search_resource_result:
  assumes "search_query sd = Inr q"
    and "srv log (get_rq self (url self @ ''/'' @ rt) (PDict [(''search'', PStr q)])) = Response resp"
    and "status_code resp = 200"
    and "json resp = Some (PDict body)"
    and "map_of body ''results'' = Some (PList xs)"
  shows "search_resource srv self rt sd log =
      (Inr (case xs of [x] \<Rightarrow> x | _ \<Rightarrow> PList xs),
       log @ [get_rq self (url self @ ''/'' @ rt) (PDict [(''search'', PStr q)])])"
proof -
  let ?u = "url self @ ''/'' @ rt" and ?d = "PDict [(''search'', PStr q)]"
  have "fst (get_request srv self ?u ?d log) = Inr (PDict body)"
    using assms(2-4) by (rule get_request_ok)
  then have g: "get_request srv self ?u ?d log = (Inr (PDict body), log @ [get_rq self ?u ?d])"
    using get_request_log [of srv self ?u ?d log]
    by (cases "get_request srv self ?u ?d log") simp
  show ?thesis
  proof (cases xs)
    case Nil
    then show ?thesis using assms(1,5) g
      by (simp add: search_resource_def py_get_def py_len_def exn_bind_def)
  next
    case (Cons x ys)
    then show ?thesis using assms(1,5) g
      by (cases ys) (simp_all add: search_resource_def py_get_def py_len_def py_item0_def exn_bind_def)
  qed
qed

lemma get_resource_by_name:
  assumes "''id'' \<notin> fst ` set d" "''name'' \<in> fst ` set d"
    and "search_query (PDict d) = Inr q"
    and "srv log (get_rq self (url self @ ''/'' @ rt) (PDict [(''search'', PStr q)])) = Response resp"
    and "status_code resp = 200"
    and "json resp = Some (PDict body)"
    and "map_of body ''results'' = Some (PList xs)"
  shows "xs = [] \<Longrightarrow> get_resource srv self rt (PDict d) log =
      (Inr PNone, log @ [get_rq self (url self @ ''/'' @ rt) (PDict [(''search'', PStr q)])])"
    and "2 \<le> length xs \<Longrightarrow> get_resource srv self rt (PDict d) log =
      (Inl AttributeError, log @ [get_rq self (url self @ ''/'' @ rt) (PDict [(''search'', PStr q)])])"
proof -
  note s = search_resource_result [where srv = srv and log = log, OF assms(3-7)]
  show "get_resource srv self rt (PDict d) log =
      (Inr PNone, log @ [get_rq self (url self @ ''/'' @ rt) (PDict [(''search'', PStr q)])])"
    if "xs = []"
    using that s assms(1,2) by (simp add: get_resource_def py_in_def)
  show "get_resource srv self rt (PDict d) log =
      (Inl AttributeError, log @ [get_rq self (url self @ ''/'' @ rt) (PDict [(''search'', PStr q)])])"
    if "2 \<le> length xs"
  proof -
    from that obtain x y zs where "xs = x # y # zs"
      by (cases xs; cases "tl xs") auto
    then show ?thesis
      using s assms(1,2) by (simp add: get_resource_def py_in_def py_get_def)
  qed
qed

subsection \<open>The URL scenarios of the specification\<close>

lemma url_scenarios:
  "get_resource_url self0 ''hosts'' PNone None PNone = ''https://h:443/api/v2/hosts''"
  "get_resource_url self0 ''hosts'' (PStr ''42'') (Some ''power'') PNone =
     ''https://h:443/api/v2/hosts/42/power''"
  "get_resource_url self0 ''hosts'' (PInt 7) (Some ''interfaces'') (PStr ''nic1'') =
     ''https://h:443/api/v2/hosts/7/interfaces/nic1''"
  by (simp_all add: get_resource_url_def url_self0 py_str_def str_int_7)

end
